theory Spec2Isabelle
  imports Complex_Main
begin

section \<open>Zone geometry and area analysis of \<^verbatim>\<open>software.py\<close>\<close>

text \<open>
  The development embeds the geometric core of the class \<^verbatim>\<open>PlotAnalyzerApp\<close>.
  A value of Python's \<^verbatim>\<open>float\<close> is a \<^typ>\<open>real\<close>, and a point is the Python tuple
  \<^verbatim>\<open>(x, y)\<close>. The area, the ray and the report routines are embedded with exact
  arithmetic, so their statements are about the formulas the code evaluates. The
  centroid and the zone-area routine are embedded with the rounding of every
  operation, because there the rounding decides what the code returns.
\<close>

type_synonym point = "real \<times> real"

text \<open>
  Outcomes that are not a value. The dialogs of the code are the failure values:
  \<^item> \<open>InvalidPolygon\<close>: the warning "Please mark at least 3 boundary points."
    of \<^verbatim>\<open>calculate_plot_area\<close>;
  \<^item> \<open>InsufficientGeometry\<close>: the warnings of \<^verbatim>\<open>calculate_zone_areas\<close> and
    \<^verbatim>\<open>export_pdf_report\<close> about a missing boundary or center;
  \<^item> \<open>ZeroPrakritiTotal\<close>: the error dialog "Prakriti total is zero. Cannot generate chart.";
  \<^item> \<open>IndexError\<close>, \<open>KeyError\<close>, \<open>ZeroDivisionError\<close>, \<open>TypeError\<close>: the Python exceptions.
\<close>

datatype error =
    InvalidPolygon
  | InsufficientGeometry
  | ZeroPrakritiTotal
  | IndexError
  | KeyError
  | ZeroDivisionError
  | TypeError

subsection \<open>Polygon area\<close>

text \<open>\<^verbatim>\<open>np.roll(v, -1)\<close>: the vector rotated left by one place.\<close>

definition roll_left :: "'a list \<Rightarrow> 'a list" where
  "roll_left v = (case v of [] \<Rightarrow> [] | a # as \<Rightarrow> as @ [a])"

text \<open>\<^verbatim>\<open>np.dot\<close> on two vectors.\<close>

definition dot :: "real list \<Rightarrow> real list \<Rightarrow> real" where
  "dot u v = sum_list (map (\<lambda>(a, b). a * b) (zip u v))"

text \<open>
  \<^verbatim>\<open>_polygon_area(points)\<close>. An empty list gives a one-dimensional array, on which
  the column slice \<^verbatim>\<open>pts[:, 0]\<close> raises.
\<close>

definition polygon_area :: "point list \<Rightarrow> error + real" where
  "polygon_area points =
     (if points = [] then Inl IndexError
      else
        let x = map fst points;
            y = map snd points
        in Inr (0.5 * \<bar>dot x (roll_left y) - dot y (roll_left x)\<bar>))"

text \<open>
  \<^verbatim>\<open>calculate_plot_area\<close>: the guard on the number of boundary points, then the
  shoelace area, which the code hands to the information dialog.
\<close>

definition calculate_plot_area :: "point list \<Rightarrow> error + real" where
  "calculate_plot_area boundary_points =
     (if length boundary_points < 3 then Inl InvalidPolygon
      else polygon_area boundary_points)"

text \<open>The cross term of edge \<open>i \<rightarrow> i+1\<close>, the successor taken cyclically.\<close>

definition cross_at :: "point list \<Rightarrow> nat \<Rightarrow> real" where
  "cross_at ps i =
     fst (ps ! i) * snd (ps ! ((i + 1) mod length ps))
       - fst (ps ! ((i + 1) mod length ps)) * snd (ps ! i)"

subsection \<open>Rounding to binary64\<close>

text \<open>Rounding of a real to the nearest integer, ties to the even one.\<close>

definition round_half_even :: "real \<Rightarrow> int" where
  "round_half_even r =
     (let f = \<lfloor>r\<rfloor>
      in if r - of_int f < 1 / 2 then f
         else if r - of_int f > 1 / 2 then f + 1
         else if even f then f else f + 1)"

text \<open>
  The result of a float64 operation: the exact result rounded to 53 significant bits,
  ties to even. The exponent is not bounded, so overflow and subnormal results are not
  part of the model; coordinates inside an image are far from both.
\<close>

definition fl64 :: "real \<Rightarrow> real" where
  "fl64 x =
     (if x = 0 then 0
      else
        let e = \<lfloor>log 2 \<bar>x\<bar>\<rfloor> - 52
        in of_int (round_half_even (x / 2 powr of_int e)) * 2 powr of_int e)"

subsection \<open>Polygon centroid\<close>

text \<open>
  One iteration of the loop of \<^verbatim>\<open>_polygon_centroid\<close>. The parameter \<open>rnd\<close> is the rounding
  applied to the result of every arithmetic operation.
\<close>

definition centroid_step ::
  "(real \<Rightarrow> real) \<Rightarrow> point list \<Rightarrow> real \<times> real \<times> real \<Rightarrow> nat \<Rightarrow> real \<times> real \<times> real" where
  "centroid_step rnd points acc i =
     (case acc of (area2, cx_acc, cy_acc) \<Rightarrow>
        (case points ! i of (x1, y1) \<Rightarrow>
          (case points ! ((i + 1) mod length points) of (x2, y2) \<Rightarrow>
             let cross = rnd (rnd (x1 * y2) - rnd (x2 * y1))
             in (rnd (area2 + cross),
                 rnd (cx_acc + rnd (rnd (x1 + x2) * cross)),
                 rnd (cy_acc + rnd (rnd (y1 + y2) * cross))))))"

text \<open>The body of \<^verbatim>\<open>_polygon_centroid(points)\<close>; \<open>None\<close> is Python's \<^verbatim>\<open>None\<close>.\<close>

definition centroid_loop :: "(real \<Rightarrow> real) \<Rightarrow> point list \<Rightarrow> point option" where
  "centroid_loop rnd points =
     (case foldl (centroid_step rnd points) (0, 0, 0) [0..<length points] of
        (area2, cx_acc, cy_acc) \<Rightarrow>
          if \<bar>area2\<bar> < rnd (1 / 10 ^ 9) then None
          else Some (rnd (cx_acc / rnd (3 * area2)), rnd (cy_acc / rnd (3 * area2))))"

text \<open>\<^verbatim>\<open>_polygon_centroid(points)\<close> as Python runs it, on float64.\<close>

definition polygon_centroid :: "point list \<Rightarrow> point option" where
  "polygon_centroid points = centroid_loop fl64 points"

text \<open>The signed half-shoelace sum \<open>A\<close> of the centroid formula.\<close>

definition signed_area :: "point list \<Rightarrow> real" where
  "signed_area ps = (\<Sum>i<length ps. cross_at ps i) / 2"

text \<open>
  The centroid in the words of the specification: no point exactly when \<open>|2A| < 1e-9\<close>,
  and otherwise the area-weighted formula.
\<close>

definition centroid_formula :: "point list \<Rightarrow> point option" where
  "centroid_formula ps =
     (if \<bar>2 * signed_area ps\<bar> < 1 / 10 ^ 9 then None
      else Some
        (1 / (6 * signed_area ps) *
           (\<Sum>i<length ps. (fst (ps ! i) + fst (ps ! ((i + 1) mod length ps))) * cross_at ps i),
         1 / (6 * signed_area ps) *
           (\<Sum>i<length ps. (snd (ps ! i) + snd (ps ! ((i + 1) mod length ps))) * cross_at ps i)))"

text \<open>
  Three clicks on one canvas row: a canvas of 1200 by 760 showing an image of 4032 by
  3024, clicked at \<open>(134, 585)\<close>, \<open>(295, 585)\<close> and \<open>(1062, 585)\<close>. The float64 values
  that \<^verbatim>\<open>_canvas_to_image\<close> appends to the boundary print as
  \<^verbatim>\<open>(12.886363636363637, 2392.568181818182)\<close>, \<^verbatim>\<open>(704.4545454545455, 2392.568181818182)\<close>,
  \<^verbatim>\<open>(3999.068181818182, 2392.568181818182)\<close>; the definition gives them exactly, as
  fractions with a power of two below.
\<close>

definition collinear_clicks :: "point list" where
  "collinear_clicks =
     [(3627188904430499 / 2 ^ 48, 1315328268077987 / 2 ^ 39),
      (1549111927933859 / 2 ^ 41, 1315328268077987 / 2 ^ 39),
      (2198510983089059 / 2 ^ 39, 1315328268077987 / 2 ^ 39)]"

subsection \<open>Ray against the boundary\<close>

text \<open>\<^verbatim>\<open>math.radians\<close>.\<close>

definition radians :: "real \<Rightarrow> real" where
  "radians deg = deg * pi / 180"

text \<open>
  One iteration of the loop of \<^verbatim>\<open>_ray_boundary_intersection\<close> over the edge that
  starts at index \<open>i\<close>. The loop state is the pair \<^verbatim>\<open>(nearest_t, nearest_pt)\<close>;
  \<^verbatim>\<open>continue\<close> and a rejected candidate leave it as it is.
\<close>

definition ray_step ::
  "point list \<Rightarrow> point \<Rightarrow> real \<times> real \<Rightarrow> real option \<times> point option \<Rightarrow> nat
     \<Rightarrow> real option \<times> point option" where
  "ray_step boundary_points origin d st i =
     (case origin of (ox, oy) \<Rightarrow>
      case d of (dx, dy) \<Rightarrow>
      case st of (nearest_t, nearest_pt) \<Rightarrow>
      case boundary_points ! i of (ax, ay) \<Rightarrow>
      case boundary_points ! ((i + 1) mod length boundary_points) of (bx, by) \<Rightarrow>
        let eps = 1 / 10 ^ 9;
            sx = bx - ax;
            sy = by - ay;
            denom = dx * sy - dy * sx
        in if \<bar>denom\<bar> < eps then st
           else
             let rx = ax - ox;
                 ry = ay - oy;
                 t = (rx * sy - ry * sx) / denom;
                 u = (rx * dy - ry * dx) / denom
             in if t \<ge> 0 \<and> - eps \<le> u \<and> u \<le> 1 + eps then
                  let ix = ox + t * dx;
                      iy = oy + t * dy
                  in if (case nearest_t of None \<Rightarrow> True | Some nt \<Rightarrow> t < nt)
                     then (Some t, Some (ix, iy))
                     else st
                else st)"

text \<open>\<^verbatim>\<open>_ray_boundary_intersection(origin, angle_deg)\<close> on \<^verbatim>\<open>self.boundary_points\<close>.\<close>

definition ray_boundary_intersection :: "point list \<Rightarrow> point \<Rightarrow> real \<Rightarrow> point option" where
  "ray_boundary_intersection boundary_points origin angle_deg =
     (if length boundary_points < 2 then None
      else
        let rad = radians angle_deg;
            dx = sin rad;
            dy = - cos rad
        in snd (foldl (ray_step boundary_points origin (dx, dy)) (None, None)
                  [0..<length boundary_points]))"

text \<open>
  The vocabulary of the specification for one edge: the direction of the ray, the
  determinant, the two parameters of the linear system, and the acceptance test.
\<close>

definition ray_dir :: "real \<Rightarrow> real \<times> real" where
  "ray_dir angle_deg = (sin (radians angle_deg), - cos (radians angle_deg))"

definition edge_vec :: "point list \<Rightarrow> nat \<Rightarrow> real \<times> real" where
  "edge_vec ps i =
     (fst (ps ! ((i + 1) mod length ps)) - fst (ps ! i),
      snd (ps ! ((i + 1) mod length ps)) - snd (ps ! i))"

definition edge_denom :: "point list \<Rightarrow> real \<Rightarrow> nat \<Rightarrow> real" where
  "edge_denom ps ang i =
     fst (ray_dir ang) * snd (edge_vec ps i) - snd (ray_dir ang) * fst (edge_vec ps i)"

definition edge_t :: "point list \<Rightarrow> point \<Rightarrow> real \<Rightarrow> nat \<Rightarrow> real" where
  "edge_t ps origin ang i =
     ((fst (ps ! i) - fst origin) * snd (edge_vec ps i)
        - (snd (ps ! i) - snd origin) * fst (edge_vec ps i)) / edge_denom ps ang i"

definition edge_u :: "point list \<Rightarrow> point \<Rightarrow> real \<Rightarrow> nat \<Rightarrow> real" where
  "edge_u ps origin ang i =
     ((fst (ps ! i) - fst origin) * snd (ray_dir ang)
        - (snd (ps ! i) - snd origin) * fst (ray_dir ang)) / edge_denom ps ang i"

definition accepted :: "point list \<Rightarrow> point \<Rightarrow> real \<Rightarrow> nat \<Rightarrow> bool" where
  "accepted ps origin ang i \<longleftrightarrow>
     \<not> \<bar>edge_denom ps ang i\<bar> < 1 / 10 ^ 9 \<and>
     0 \<le> edge_t ps origin ang i \<and>
     - (1 / 10 ^ 9) \<le> edge_u ps origin ang i \<and> edge_u ps origin ang i \<le> 1 + 1 / 10 ^ 9"

definition point_at :: "point \<Rightarrow> real \<Rightarrow> real \<Rightarrow> point" where
  "point_at origin ang t =
     (fst origin + t * fst (ray_dir ang), snd origin + t * snd (ray_dir ang))"

text \<open>The intersection test of a ray against the single segment from \<open>a\<close> to \<open>b\<close>.\<close>

definition segment_hit :: "point \<Rightarrow> point \<Rightarrow> point \<Rightarrow> real \<Rightarrow> point option" where
  "segment_hit a b origin ang =
     (if accepted [a, b] origin ang 0 then Some (point_at origin ang (edge_t [a, b] origin ang 0))
      else None)"



subsection \<open>Balance lines and remarks\<close>

definition ZONE_NAMES :: "string list" where
  "ZONE_NAMES =
     [''N'', ''NNE'', ''NE'', ''ENE'',
      ''E'', ''ESE'', ''SE'', ''SSE'',
      ''S'', ''SSW'', ''SW'', ''WSW'',
      ''W'', ''WNW'', ''NW'', ''NNW'']"

text \<open>
  \<^verbatim>\<open>zone_data = {z: float(a) for z, a in zip(self.ZONE_NAMES, zone_areas)}\<close>. The zone
  names are distinct, so the dictionary is the zipped list in insertion order.
\<close>

definition zone_data_of :: "real list \<Rightarrow> (string \<times> real) list" where
  "zone_data_of zone_areas = zip ZONE_NAMES zone_areas"

text \<open>
  The balance lines and the remarks of \<^verbatim>\<open>export_pdf_report\<close>. The result is
  \<^verbatim>\<open>(lob, ulob, llob, remarks)\<close>; the division by \<^verbatim>\<open>len(areas)\<close> raises on an empty
  list.
\<close>

definition classify_balance ::
  "(string \<times> real) list \<Rightarrow> error + real \<times> real \<times> real \<times> (string \<times> string) list" where
  "classify_balance zone_data =
     (let areas = map snd zone_data
      in if areas = [] then Inl ZeroDivisionError
         else
           let lob = sum_list areas / real (length areas);
               ulob = (lob + Max (set areas)) / 2;
               llob = (lob + Min (set areas)) / 2;
               remarks = map (\<lambda>(z, v). (z, if v > ulob then ''High''
                                              else if v < llob then ''Low''
                                              else ''Balanced'')) zone_data
           in Inr (lob, ulob, llob, remarks))"

subsection \<open>Prakriti groups\<close>

definition prakriti_map :: "(string \<times> string list) list" where
  "prakriti_map =
     [(''Fire'', [''E'', ''ESE'', ''SE'', ''SSE'', ''S'', ''SSW'']),
      (''Water'', [''NNW'', ''N'', ''NNE'', ''NE'', ''ENE'']),
      (''Air'', [''SW'', ''WSW'', ''W'', ''WNW'', ''NW''])]"

text \<open>\<^verbatim>\<open>sum(zone_data[z] for z in zlist)\<close>; a missing key raises.\<close>

fun zone_sum :: "(string \<times> real) list \<Rightarrow> string list \<Rightarrow> error + real" where
  "zone_sum zone_data [] = Inr 0"
| "zone_sum zone_data (z # zlist) =
     (case map_of zone_data z of
        None \<Rightarrow> Inl KeyError
      | Some v \<Rightarrow> (case zone_sum zone_data zlist of Inl e \<Rightarrow> Inl e | Inr r \<Rightarrow> Inr (v + r)))"

text \<open>The dictionary comprehension over \<^verbatim>\<open>prakriti_map.items()\<close>.\<close>

fun strength_of ::
  "(string \<times> real) list \<Rightarrow> (string \<times> string list) list \<Rightarrow> error + (string \<times> real) list" where
  "strength_of zone_data [] = Inr []"
| "strength_of zone_data ((p, zlist) # rest) =
     (case zone_sum zone_data zlist of
        Inl e \<Rightarrow> Inl e
      | Inr v \<Rightarrow> (case strength_of zone_data rest of Inl e \<Rightarrow> Inl e | Inr r \<Rightarrow> Inr ((p, v) # r)))"

text \<open>\<^verbatim>\<open>sep.join(xs)\<close>.\<close>

fun join :: "string \<Rightarrow> string list \<Rightarrow> string" where
  "join sep [] = []"
| "join sep [x] = x"
| "join sep (x # y # ys) = x @ sep @ join sep (y # ys)"

record prakriti =
  prakriti_strength :: "(string \<times> real) list"
  total_prakriti :: real
  prakriti_percentage :: "(string \<times> real) list"
  prakriti_sorted :: "(string \<times> real) list"
  final_prakriti :: string

text \<open>
  The Prakriti part of \<^verbatim>\<open>export_pdf_report\<close>. \<^verbatim>\<open>sorted(..., reverse=True)\<close> is
  stable, so it is the stable sort on the negated key. Each element of
  \<^verbatim>\<open>prakriti_sorted\<close> is a pair \<^verbatim>\<open>(name, strength)\<close>, and \<^verbatim>\<open>p[0]\<close> is its name.
\<close>

definition aggregate_prakriti :: "(string \<times> real) list \<Rightarrow> error + prakriti" where
  "aggregate_prakriti zone_data =
     (case strength_of zone_data prakriti_map of
        Inl e \<Rightarrow> Inl e
      | Inr strength \<Rightarrow>
          let total = sum_list (map snd strength)
          in if total \<le> 0 then Inl ZeroPrakritiTotal
             else
               let percentage = map (\<lambda>(p, v). (p, (v / total) * 100)) strength;
                   sorted_items = sort_key (\<lambda>x. - snd x) strength
               in Inr \<lparr>prakriti_strength = strength,
                       total_prakriti = total,
                       prakriti_percentage = percentage,
                       prakriti_sorted = sorted_items,
                       final_prakriti = join ''-'' (map (\<lambda>p. fst p) sorted_items)\<rparr>)"

text \<open>
  The composite label in the words of the specification: the leading letter of each
  ranked group, joined by the separator.
\<close>

definition leading_letter_label :: "(string \<times> real) list \<Rightarrow> string" where
  "leading_letter_label ranked = join ''-'' (map (\<lambda>p. take 1 (fst p)) ranked)"

subsection \<open>Zone areas\<close>

text \<open>
  The fields of the application object that the area computations read and write.
  \<open>img_w\<close> and \<open>img_h\<close> are the dimensions of \<^verbatim>\<open>self.original_bgr\<close>.
\<close>

record app_state =
  boundary_points :: "point list"
  barchart_boundary_points :: "point list"
  barchart_polygon_closed :: bool
  center_point :: "point option"
  north_tilt_deg :: real
  zone_areas_cache :: "real list option"
  img_w :: nat
  img_h :: nat

text \<open>
  The OpenCV primitives, which are not code of the repository, over a type \<open>'m\<close> of
  masks: \<open>fillPoly h w poly\<close> and \<open>fillConvexPoly h w poly\<close> are the zero mask of
  \<open>h\<close> rows and \<open>w\<close> columns with the polygon filled.
\<close>

record 'm cv2 =
  fillPoly :: "nat \<Rightarrow> nat \<Rightarrow> (int \<times> int) list \<Rightarrow> 'm"
  fillConvexPoly :: "nat \<Rightarrow> nat \<Rightarrow> (int \<times> int) list \<Rightarrow> 'm"
  bitwise_and :: "'m \<Rightarrow> 'm \<Rightarrow> 'm"
  countNonZero :: "'m \<Rightarrow> nat"

text \<open>
  The functions of Python's \<^verbatim>\<open>math\<close> module that the routine calls, on float64:
  \<^verbatim>\<open>math.radians\<close>, \<^verbatim>\<open>math.sin\<close>, \<^verbatim>\<open>math.cos\<close> and \<^verbatim>\<open>math.hypot\<close>. They are
  library code, and nothing is assumed of the values they return.
\<close>

record libm =
  radians64 :: "real \<Rightarrow> real"
  sin64 :: "real \<Rightarrow> real"
  cos64 :: "real \<Rightarrow> real"
  hypot64 :: "real \<Rightarrow> real \<Rightarrow> real"

text \<open>The conversion to \<^verbatim>\<open>np.int32\<close> of a coordinate: truncation towards zero.\<close>

definition to_int32 :: "real \<Rightarrow> int" where
  "to_int32 x = (if 0 \<le> x then \<lfloor>x\<rfloor> else \<lceil>x\<rceil>)"

definition int32_point :: "point \<Rightarrow> int \<times> int" where
  "int32_point p = (to_int32 (fst p), to_int32 (snd p))"

text \<open>
  \<^verbatim>\<open>_compute_zone_areas_mask_based(polygon_points)\<close>, every arithmetic operation rounded
  to float64. Unpacking a center that is \<^verbatim>\<open>None\<close> raises.
\<close>

definition compute_zone_areas_mask_based ::
  "'m cv2 \<Rightarrow> libm \<Rightarrow> app_state \<Rightarrow> point list \<Rightarrow> error + real list" where
  "compute_zone_areas_mask_based cv lm s polygon_points =
     (let polygon_mask = fillPoly cv (img_h s) (img_w s) (map int32_point polygon_points)
      in case center_point s of
           None \<Rightarrow> Inl TypeError
         | Some (cx, cy) \<Rightarrow>
             let step = fl64 (360 / 16);
                 start_boundary_deg = fl64 (north_tilt_deg s - fl64 (step / 2));
                 far_r = fl64 (hypot64 lm (real (img_w s)) (real (img_h s)) * 2)
             in Inr (map (\<lambda>i.
                   let a1 = fl64 (start_boundary_deg + fl64 (real i * step));
                       a2 = fl64 (start_boundary_deg + fl64 (real (i + 1) * step));
                       p1 = (fl64 (cx + fl64 (far_r * sin64 lm (radians64 lm a1))),
                             fl64 (cy - fl64 (far_r * cos64 lm (radians64 lm a1))));
                       p2 = (fl64 (cx + fl64 (far_r * sin64 lm (radians64 lm a2))),
                             fl64 (cy - fl64 (far_r * cos64 lm (radians64 lm a2))));
                       wedge_mask = fillConvexPoly cv (img_h s) (img_w s)
                                      (map int32_point [(cx, cy), p1, p2]);
                       zone_mask = bitwise_and cv polygon_mask wedge_mask
                   in real (countNonZero cv zone_mask)) [0..<16]))"

text \<open>
  Where the zone areas of a run come from: from the masking routine applied to a
  polygon, or from the cache.
\<close>

datatype zone_source = Masked "point list" | Cached "real list"

text \<open>
  \<^verbatim>\<open>barchart_points = self.barchart_boundary_points if len(self.barchart_boundary_points) >= 3 else self.boundary_points\<close>,
  the first statement of the area computation in both functions.
\<close>

definition select_barchart_points :: "app_state \<Rightarrow> point list" where
  "select_barchart_points s =
     (if length (barchart_boundary_points s) \<ge> 3 then barchart_boundary_points s
      else boundary_points s)"

text \<open>
  The control flow of \<^verbatim>\<open>calculate_zone_areas\<close> up to the call of the masking routine.
\<close>

definition calculate_zone_areas_source :: "app_state \<Rightarrow> error + zone_source" where
  "calculate_zone_areas_source s =
     (let barchart_points = select_barchart_points s
      in if length barchart_points < 3 \<or> center_point s = None then Inl InsufficientGeometry
         else Inr (Masked barchart_points))"

text \<open>
  The control flow of \<^verbatim>\<open>export_pdf_report\<close> up to the zone areas: the guard on the
  center boundary, the selection, and the cache, which is used when it holds 16 values.
\<close>

definition export_zone_areas_source :: "app_state \<Rightarrow> error + zone_source" where
  "export_zone_areas_source s =
     (if length (boundary_points s) < 3 \<or> center_point s = None then Inl InsufficientGeometry
      else
        let barchart_points = select_barchart_points s
        in case zone_areas_cache s of
             None \<Rightarrow> Inr (Masked barchart_points)
           | Some zone_areas \<Rightarrow>
               if length zone_areas \<noteq> 16 then Inr (Masked barchart_points)
               else Inr (Cached zone_areas))"

text \<open>The zone areas of a source; both functions call the one masking routine.\<close>

definition zone_areas_from ::
  "'m cv2 \<Rightarrow> libm \<Rightarrow> app_state \<Rightarrow> zone_source \<Rightarrow> error + real list" where
  "zone_areas_from cv lm s src =
     (case src of
        Masked polygon_points \<Rightarrow> compute_zone_areas_mask_based cv lm s polygon_points
      | Cached zone_areas \<Rightarrow> Inr zone_areas)"

text \<open>
  The updates of the state that follow: the cache takes the zone areas, and the
  bar-chart polygon is closed when it was the one selected.
\<close>

definition store_zone_areas :: "app_state \<Rightarrow> real list \<Rightarrow> app_state" where
  "store_zone_areas s zone_areas =
     s\<lparr>zone_areas_cache := Some zone_areas,
       barchart_polygon_closed :=
         (if length (barchart_boundary_points s) \<ge> 3 then True else barchart_polygon_closed s)\<rparr>"

definition calculate_zone_areas ::
  "'m cv2 \<Rightarrow> libm \<Rightarrow> app_state \<Rightarrow> error + real list \<times> app_state" where
  "calculate_zone_areas cv lm s =
     (case calculate_zone_areas_source s of
        Inl e \<Rightarrow> Inl e
      | Inr src \<Rightarrow>
          (case zone_areas_from cv lm s src of
             Inl e \<Rightarrow> Inl e
           | Inr zone_areas \<Rightarrow> Inr (zone_areas, store_zone_areas s zone_areas)))"

definition export_zone_areas ::
  "'m cv2 \<Rightarrow> libm \<Rightarrow> app_state \<Rightarrow> error + real list \<times> app_state" where
  "export_zone_areas cv lm s =
     (case export_zone_areas_source s of
        Inl e \<Rightarrow> Inl e
      | Inr src \<Rightarrow>
          (case zone_areas_from cv lm s src of
             Inl e \<Rightarrow> Inl e
           | Inr zone_areas \<Rightarrow> Inr (zone_areas, store_zone_areas s zone_areas)))"

subsection \<open>Example states\<close>

text \<open>States of the application on which the area computations are evaluated below.\<close>

definition square_plot :: "point list" where
  "square_plot = [(0, 0), (100, 0), (100, 100), (0, 100)]"

definition triangle_plot :: "point list" where
  "triangle_plot = [(10, 10), (90, 10), (50, 80)]"

definition state_both :: app_state where
  "state_both =
     \<lparr>boundary_points = square_plot, barchart_boundary_points = triangle_plot,
      barchart_polygon_closed = False, center_point = Some (50, 50), north_tilt_deg = 0,
      zone_areas_cache = None, img_w = 200, img_h = 200\<rparr>"

definition state_center_only :: app_state where
  "state_center_only = state_both\<lparr>barchart_boundary_points := [(10, 10), (90, 10)]\<rparr>"

definition state_cached :: app_state where
  "state_cached = state_both\<lparr>zone_areas_cache := Some (replicate 16 100)\<rparr>"

section \<open>Properties\<close>

subsection \<open>Polygon area\<close>

lemma roll_left_nth:
  assumes "i < length v"
  shows "roll_left v ! i = v ! ((i + 1) mod length v)"
proof (cases v)
  case Nil
  with assms show ?thesis by simp
next
  case (Cons a as)
  show ?thesis
  proof (cases "i < length as")
    case True
    then show ?thesis by (simp add: roll_left_def Cons nth_append)
  next
    case False
    with assms Cons have "i = length as" by simp
    then show ?thesis by (simp add: roll_left_def Cons nth_append)
  qed
qed

lemma roll_left_map_nth:
  assumes "i < length ps"
  shows "roll_left (map f ps) ! i = f (ps ! ((i + 1) mod length ps))"
proof -
  from assms have "0 < length ps" by (cases ps) simp_all
  then have "(i + 1) mod length ps < length ps" by (rule mod_less_divisor)
  then show ?thesis using assms by (simp add: roll_left_nth)
qed

lemma length_roll_left [simp]: "length (roll_left v) = length v"
  by (cases v) (simp_all add: roll_left_def)

lemma dot_sum:
  assumes "length u = length v"
  shows "dot u v = (\<Sum>i<length u. u ! i * v ! i)"
proof -
  have "dot u v = (\<Sum>i = 0..<length (zip u v). (map (\<lambda>(a, b). a * b) (zip u v)) ! i)"
    unfolding dot_def by (simp add: sum_list_sum_nth)
  also have "\<dots> = (\<Sum>i = 0..<length u. u ! i * v ! i)"
    using assms by (intro sum.cong) simp_all
  finally show ?thesis by (simp add: atLeast0LessThan)
qed

lemma shoelace_dots:
  "dot (map fst ps) (roll_left (map snd ps)) - dot (map snd ps) (roll_left (map fst ps))
     = (\<Sum>i<length ps. cross_at ps i)"
proof -
  have 1: "dot (map fst ps) (roll_left (map snd ps))
             = (\<Sum>i<length ps. fst (ps ! i) * snd (ps ! ((i + 1) mod length ps)))"
  proof -
    have "dot (map fst ps) (roll_left (map snd ps))
            = (\<Sum>i<length ps. map fst ps ! i * roll_left (map snd ps) ! i)"
      using dot_sum [of "map fst ps" "roll_left (map snd ps)"] by simp
    also have "\<dots> = (\<Sum>i<length ps. fst (ps ! i) * snd (ps ! ((i + 1) mod length ps)))"
      by (rule sum.cong) (simp_all add: roll_left_map_nth)
    finally show ?thesis .
  qed
  have 2: "dot (map snd ps) (roll_left (map fst ps))
             = (\<Sum>i<length ps. snd (ps ! i) * fst (ps ! ((i + 1) mod length ps)))"
  proof -
    have "dot (map snd ps) (roll_left (map fst ps))
            = (\<Sum>i<length ps. map snd ps ! i * roll_left (map fst ps) ! i)"
      using dot_sum [of "map snd ps" "roll_left (map fst ps)"] by simp
    also have "\<dots> = (\<Sum>i<length ps. snd (ps ! i) * fst (ps ! ((i + 1) mod length ps)))"
      by (rule sum.cong) (simp_all add: roll_left_map_nth)
    finally show ?thesis .
  qed
  show ?thesis
    unfolding 1 2 cross_at_def by (simp add: sum_subtractf mult.commute)
qed

text \<open>
  Called on its own with one or two points, \<^verbatim>\<open>_polygon_area\<close> returns zero; the
  callers never do so.
\<close>

lemma polygon_area_below_three:
  "polygon_area [a] = Inr 0" "polygon_area [a, b] = Inr 0"
  by (simp_all add: polygon_area_def dot_def roll_left_def case_prod_unfold)

text \<open>
  Claim C1. The area operation evaluates the shoelace formula
  \<open>0.5 * |\<Sum> (x\<^sub>i * y\<^sub>i\<^sub>+\<^sub>1 - x\<^sub>i\<^sub>+\<^sub>1 * y\<^sub>i)|\<close> over the point list with the
  successor index taken modulo its length, so that the closing edge from the last point
  to the first is always part of the sum (no closed flag is consulted), and with fewer
  than three points it fails with \<open>InvalidPolygon\<close> and yields no number.
\<close>

theorem polygon_area_shoelace:
  "calculate_plot_area ps =
     (if length ps < 3 then Inl InvalidPolygon
      else Inr (0.5 * \<bar>\<Sum>i<length ps.
                  fst (ps ! i) * snd (ps ! ((i + 1) mod length ps))
                    - fst (ps ! ((i + 1) mod length ps)) * snd (ps ! i)\<bar>))"
proof (cases "length ps < 3")
  case True
  then show ?thesis by (simp add: calculate_plot_area_def)
next
  case False
  then have "ps \<noteq> []" by auto
  with False show ?thesis
    using shoelace_dots [of ps]
    by (simp add: calculate_plot_area_def polygon_area_def cross_at_def)
qed

subsection \<open>Rounding to binary64\<close>

lemma round_half_even_near:
  assumes "\<bar>r - of_int n\<bar> < 1 / 2"
  shows "round_half_even r = n"
proof (cases "of_int n \<le> r")
  case True
  with assms have "\<lfloor>r\<rfloor> = n" by (intro floor_unique) auto
  with assms True show ?thesis by (simp add: round_half_even_def)
next
  case False
  with assms have "\<lfloor>r\<rfloor> = n - 1" by (intro floor_unique) auto
  with assms False show ?thesis by (simp add: round_half_even_def)
qed

lemma round_half_even_tie:
  assumes "\<bar>r - of_int n\<bar> = 1 / 2" "even n"
  shows "round_half_even r = n"
proof (cases "of_int n \<le> r")
  case True
  with assms have r: "r = of_int n + 1 / 2" by auto
  then have "\<lfloor>r\<rfloor> = n" by (intro floor_unique) auto
  with r assms show ?thesis by (simp add: round_half_even_def)
next
  case False
  with assms have r: "r = of_int n - 1 / 2" by auto
  then have "\<lfloor>r\<rfloor> = n - 1" by (intro floor_unique) auto
  with r assms show ?thesis by (simp add: round_half_even_def)
qed

lemma fl64_exponent:
  assumes "2 powr of_int k \<le> \<bar>x\<bar>" "\<bar>x\<bar> < 2 powr of_int (k + 1)"
  shows "fl64 x = of_int (round_half_even (x / 2 powr of_int (k - 52))) * 2 powr of_int (k - 52)"
proof -
  have "0 < (2::real) powr of_int k" by simp
  with assms have pos: "0 < \<bar>x\<bar>" by linarith
  then have nz: "x \<noteq> 0" by auto
  from assms have "\<lfloor>log 2 \<bar>x\<bar>\<rfloor> = k"
    using floor_log_eq_powr_iff [of "\<bar>x\<bar>" 2 k] pos by (simp add: add.commute)
  with nz show ?thesis by (simp add: fl64_def Let_def)
qed

lemma fl64_scaled:
  assumes "2 powr of_int e \<le> \<bar>x\<bar>" "\<bar>x\<bar> < 2 powr of_int (e + 1)"
    and "2 powr of_int (e - 52) = 1 / s" and "round_half_even (x * s) = n"
  shows "fl64 x = of_int n / s"
proof -
  have "x / (1 / s) = x * s" by simp
  then have "fl64 x = of_int n * (1 / s)"
    unfolding fl64_exponent [OF assms(1,2)] assms(3) by (simp only: assms(4))
  then show ?thesis by simp
qed

lemma two_powr_nat: "(2::real) powr of_int (int k) = 2 ^ k"
  by (simp add: powr_realpow)

lemma two_powr_neg_nat: "(2::real) powr of_int (- int k) = 1 / 2 ^ k"
proof -
  have "(2::real) powr of_int (- int k) = inverse (2 powr of_int (int k))"
    by (simp add: powr_minus)
  then show ?thesis unfolding two_powr_nat by (simp add: divide_inverse)
qed

lemma two_powr_neg_nat_Suc: "(2::real) powr of_int (- int k + 1) = 2 / 2 ^ k"
proof -
  have "(2::real) powr (of_int (- int k) + 1) = 2 powr of_int (- int k) * 2 powr 1"
    by (rule powr_add)
  then show ?thesis unfolding two_powr_neg_nat by simp
qed

lemma fl64_up:
  fixes k :: nat
  assumes "2 ^ k \<le> \<bar>x\<bar>" "\<bar>x\<bar> < 2 ^ (k + 1)" "k \<le> 52"
    and "round_half_even (x * 2 ^ (52 - k)) = n"
  shows "fl64 x = of_int n / 2 ^ (52 - k)"
proof -
  have a: "2 powr of_int (int k) \<le> \<bar>x\<bar>"
    unfolding two_powr_nat by (rule assms(1))
  have "int k + 1 = int (k + 1)" by simp
  then have b: "\<bar>x\<bar> < 2 powr of_int (int k + 1)"
    by (simp only: two_powr_nat assms(2))
  have "int k - 52 = - int (52 - k)" using assms(3) by linarith
  then have c: "(2::real) powr of_int (int k - 52) = 1 / 2 ^ (52 - k)"
    by (simp only: two_powr_neg_nat)
  show ?thesis by (rule fl64_scaled [OF a b c assms(4)])
qed

lemma fl64_down:
  fixes j :: nat
  assumes "1 / 2 ^ j \<le> \<bar>x\<bar>" "\<bar>x\<bar> < 2 / 2 ^ j"
    and "round_half_even (x * 2 ^ (52 + j)) = n"
  shows "fl64 x = of_int n / 2 ^ (52 + j)"
proof -
  have a: "2 powr of_int (- int j) \<le> \<bar>x\<bar>"
    unfolding two_powr_neg_nat by (rule assms(1))
  have b: "\<bar>x\<bar> < 2 powr of_int (- int j + 1)"
    unfolding two_powr_neg_nat_Suc by (rule assms(2))
  have "- int j - 52 = - int (52 + j)" by linarith
  then have c: "(2::real) powr of_int (- int j - 52) = 1 / 2 ^ (52 + j)"
    by (simp only: two_powr_neg_nat)
  show ?thesis by (rule fl64_scaled [OF a b c assms(3)])
qed

lemma fl64_zero: "fl64 0 = 0"
  by (simp add: fl64_def)

lemma upt_three: "[0..<3] = [0, Suc 0, 2]"
  by (simp add: upt_rec numeral_3_eq_3 numeral_2_eq_2)

lemma below_three: "{..<3::nat} = {0, 1, 2}"
  by auto

subsection \<open>Polygon centroid\<close>

lemma centroid_step_exact:
  "centroid_step (\<lambda>x. x) ps (a, b, c) i =
     (a + cross_at ps i,
      b + (fst (ps ! i) + fst (ps ! ((i + 1) mod length ps))) * cross_at ps i,
      c + (snd (ps ! i) + snd (ps ! ((i + 1) mod length ps))) * cross_at ps i)"
  by (simp add: centroid_step_def cross_at_def Let_def split: prod.splits)

lemma centroid_fold_exact:
  "foldl (centroid_step (\<lambda>x. x) ps) (0, 0, 0) [0..<k] =
     (\<Sum>i<k. cross_at ps i,
      \<Sum>i<k. (fst (ps ! i) + fst (ps ! ((i + 1) mod length ps))) * cross_at ps i,
      \<Sum>i<k. (snd (ps ! i) + snd (ps ! ((i + 1) mod length ps))) * cross_at ps i)"
proof (induction k)
  case 0
  show ?case by simp
next
  case (Suc k)
  show ?case
    by (simp add: Suc centroid_step_exact)
qed

lemma centroid_loop_exact: "centroid_loop (\<lambda>x. x) ps = centroid_formula ps"
  by (simp add: centroid_loop_def centroid_fold_exact centroid_formula_def signed_area_def)

text \<open>
  Claim C2. For a polygon of at least three points the centroid is
  \<open>Cx = 1/(6A) * \<Sum> (x\<^sub>i + x\<^sub>i\<^sub>+\<^sub>1) * (x\<^sub>i * y\<^sub>i\<^sub>+\<^sub>1 - x\<^sub>i\<^sub>+\<^sub>1 * y\<^sub>i)\<close> with the analogous \<open>Cy\<close>,
  where \<open>A\<close> is the signed half-shoelace sum, and the routine returns no point exactly
  when \<open>|2A| < 1e-9\<close>. In exact arithmetic the loop of the code is this formula
  (\<open>centroid_loop_exact\<close>). On float64 the code departs from it: the three collinear
  clicks have the signed area zero, but the rounding of the products leaves
  \<open>area2 = 2\<^sup>-\<^sup>2\<^sup>9\<close>, about \<open>1.86e-9\<close>, the test against \<open>1e-9\<close> fails, and the code
  returns the point \<open>(0, 0)\<close> where the claim asks for no point.
\<close>

theorem polygon_centroid_collinear:
  "polygon_centroid collinear_clicks = Some (0, 0) \<and> centroid_formula collinear_clicks = None"
proof -
  define x0 :: real where "x0 = 3627188904430499 / 2 ^ 48"
  define x1 :: real where "x1 = 1549111927933859 / 2 ^ 41"
  define x2 :: real where "x2 = 2198510983089059 / 2 ^ 39"
  define y :: real where "y = 1315328268077987 / 2 ^ 39"
  define Q0 :: real where "Q0 = 4237449590910333 / 2 ^ 37"
  define Q1 :: real where "Q1 = 1809744096117955 / 2 ^ 30"
  define Q2 :: real where "Q2 = 2568402063240573 / 2 ^ 28"
  define C0 :: real where "C0 = - (222079877648621 / 2 ^ 27)"
  define C1 :: real where "C1 = - (8463864156844337 / 2 ^ 30)"
  define C2 :: real where "C2 = 5120251589016653 / 2 ^ 29"
  define S0 :: real where "S0 = 6309797364998889 / 2 ^ 43"
  define S1 :: real where "S1 = 646447241268131 / 2 ^ 37"
  define S2 :: real where "S2 = 8822381345672099 / 2 ^ 41"
  define SY :: real where "SY = 1315328268077987 / 2 ^ 38"
  define MX0 :: real where "MX0 = - (622292895793983 / 2 ^ 19)"
  define MX1 :: real where "MX1 = - (4859616384553999 / 2 ^ 17)"
  define MX2 :: real where "MX2 = 5015189608502495 / 2 ^ 17"
  define MY0 :: real where "MY0 = - (8302207016940085 / 2 ^ 20)"
  define MY1 :: real where "MY1 = - (4943938495336215 / 2 ^ 17)"
  define MY2 :: real where "MY2 = 2990857186226863 / 2 ^ 16"
  define A1 :: real where "A1 = - (1280062897254163 / 2 ^ 27)"
  define A2 :: real where "A2 = 1 / 2 ^ 29"
  define CX1 :: real where "CX1 = - (5015189608502495 / 2 ^ 17)"
  define CX2 :: real where "CX2 = 0"
  define CY1 :: real where "CY1 = - (2990857186226863 / 2 ^ 16)"
  define CY2 :: real where "CY2 = 0"
  define T :: real where "T = 4835703278458517 / 2 ^ 82"
  define D :: real where "D = 3 / 2 ^ 29"
  have r1: "round_half_even (((3627188904430499 / 2 ^ 48) * (1315328268077987 / 2 ^ 39)) * 2 ^ (52 - 14)) = 8474899181820666"
    by (rule round_half_even_near) simp
  have f1: "fl64 (x0 * y) = Q0"
    unfolding Q0_def x0_def y_def using fl64_up [OF _ _ _ r1] by simp
  have r2: "round_half_even (((1549111927933859 / 2 ^ 41) * (1315328268077987 / 2 ^ 39)) * 2 ^ (52 - 20)) = 7238976384471820"
    by (rule round_half_even_near) simp
  have f2: "fl64 (x1 * y) = Q1"
    unfolding Q1_def x1_def y_def using fl64_up [OF _ _ _ r2] by simp
  have r3: "round_half_even (((2198510983089059 / 2 ^ 39) * (1315328268077987 / 2 ^ 39)) * 2 ^ (52 - 23)) = 5136804126481146"
    by (rule round_half_even_near) simp
  have f3: "fl64 (x2 * y) = Q2"
    unfolding Q2_def x2_def y_def using fl64_up [OF _ _ _ r3] by simp
  have r4: "round_half_even (((4237449590910333 / 2 ^ 37) - (1809744096117955 / 2 ^ 30)) * 2 ^ (52 - 20)) = - 7106556084755872"
    by (rule round_half_even_near) simp
  have f4: "fl64 (Q0 - Q1) = C0"
    unfolding C0_def Q0_def Q1_def using fl64_up [OF _ _ _ r4] by simp
  have r5: "round_half_even (((1809744096117955 / 2 ^ 30) - (2568402063240573 / 2 ^ 28)) * 2 ^ (52 - 22)) = - 8463864156844337"
    by (rule round_half_even_near) simp
  have f5: "fl64 (Q1 - Q2) = C1"
    unfolding C1_def Q1_def Q2_def using fl64_up [OF _ _ _ r5] by simp
  have r6: "round_half_even (((2568402063240573 / 2 ^ 28) - (4237449590910333 / 2 ^ 37)) * 2 ^ (52 - 23)) = 5120251589016653"
    by (rule round_half_even_near) simp
  have f6: "fl64 (Q2 - Q0) = C2"
    unfolding C2_def Q0_def Q2_def using fl64_up [OF _ _ _ r6] by simp
  have r7: "round_half_even (((3627188904430499 / 2 ^ 48) + (1549111927933859 / 2 ^ 41)) * 2 ^ (52 - 9)) = 6309797364998889"
    by (rule round_half_even_near) simp
  have f7: "fl64 (x0 + x1) = S0"
    unfolding S0_def x0_def x1_def using fl64_up [OF _ _ _ r7] by simp
  have r8: "round_half_even (((1549111927933859 / 2 ^ 41) + (2198510983089059 / 2 ^ 39)) * 2 ^ (52 - 12)) = 5171577930145048"
    by (rule round_half_even_tie) simp_all
  have f8: "fl64 (x1 + x2) = S1"
    unfolding S1_def x1_def x2_def using fl64_up [OF _ _ _ r8] by simp
  have r9: "round_half_even (((2198510983089059 / 2 ^ 39) + (3627188904430499 / 2 ^ 48)) * 2 ^ (52 - 11)) = 8822381345672099"
    by (rule round_half_even_near) simp
  have f9: "fl64 (x2 + x0) = S2"
    unfolding S2_def x0_def x2_def using fl64_up [OF _ _ _ r9] by simp
  have r10: "round_half_even ((2 * (1315328268077987 / 2 ^ 39)) * 2 ^ (52 - 12)) = 5261313072311948"
    by (rule round_half_even_near) simp
  have f10: "fl64 (2 * y) = SY"
    unfolding SY_def y_def using fl64_up [OF _ _ _ r10] by simp
  have r11: "round_half_even (((6309797364998889 / 2 ^ 43) * (- (222079877648621 / 2 ^ 27))) * 2 ^ (52 - 30)) = - 4978343166351864"
    by (rule round_half_even_near) simp
  have f11: "fl64 (S0 * C0) = MX0"
    unfolding C0_def MX0_def S0_def using fl64_up [OF _ _ _ r11] by simp
  have r12: "round_half_even (((646447241268131 / 2 ^ 37) * (- (8463864156844337 / 2 ^ 30))) * 2 ^ (52 - 35)) = - 4859616384553999"
    by (rule round_half_even_near) simp
  have f12: "fl64 (S1 * C1) = MX1"
    unfolding C1_def MX1_def S1_def using fl64_up [OF _ _ _ r12] by simp
  have r13: "round_half_even (((8822381345672099 / 2 ^ 41) * (5120251589016653 / 2 ^ 29)) * 2 ^ (52 - 35)) = 5015189608502495"
    by (rule round_half_even_near) simp
  have f13: "fl64 (S2 * C2) = MX2"
    unfolding C2_def MX2_def S2_def using fl64_up [OF _ _ _ r13] by simp
  have r14: "round_half_even (((1315328268077987 / 2 ^ 38) * (- (222079877648621 / 2 ^ 27))) * 2 ^ (52 - 32)) = - 8302207016940085"
    by (rule round_half_even_near) simp
  have f14: "fl64 (SY * C0) = MY0"
    unfolding C0_def MY0_def SY_def using fl64_up [OF _ _ _ r14] by simp
  have r15: "round_half_even (((1315328268077987 / 2 ^ 38) * (- (8463864156844337 / 2 ^ 30))) * 2 ^ (52 - 35)) = - 4943938495336215"
    by (rule round_half_even_near) simp
  have f15: "fl64 (SY * C1) = MY1"
    unfolding C1_def MY1_def SY_def using fl64_up [OF _ _ _ r15] by simp
  have r16: "round_half_even (((1315328268077987 / 2 ^ 38) * (5120251589016653 / 2 ^ 29)) * 2 ^ (52 - 35)) = 5981714372453726"
    by (rule round_half_even_near) simp
  have f16: "fl64 (SY * C2) = MY2"
    unfolding C2_def MY2_def SY_def using fl64_up [OF _ _ _ r16] by simp
  have r17: "round_half_even (((- (222079877648621 / 2 ^ 27))) * 2 ^ (52 - 20)) = - 7106556084755872"
    by (rule round_half_even_near) simp
  have f17: "fl64 (C0) = C0"
    unfolding C0_def using fl64_up [OF _ _ _ r17] by simp
  have r18: "round_half_even (((- (222079877648621 / 2 ^ 27)) + (- (8463864156844337 / 2 ^ 30))) * 2 ^ (52 - 23)) = - 5120251589016652"
    by (rule round_half_even_tie) simp_all
  have f18: "fl64 (C0 + C1) = A1"
    unfolding A1_def C0_def C1_def using fl64_up [OF _ _ _ r18] by simp
  have r19: "round_half_even (((- (1280062897254163 / 2 ^ 27)) + (5120251589016653 / 2 ^ 29)) * 2 ^ (52 + 29)) = 4503599627370496"
    by (rule round_half_even_near) simp
  have f19: "fl64 (A1 + C2) = A2"
    unfolding A1_def A2_def C2_def using fl64_down [OF _ _ r19] by simp
  have r20: "round_half_even (((- (622292895793983 / 2 ^ 19))) * 2 ^ (52 - 30)) = - 4978343166351864"
    by (rule round_half_even_near) simp
  have f20: "fl64 (MX0) = MX0"
    unfolding MX0_def using fl64_up [OF _ _ _ r20] by simp
  have r21: "round_half_even (((- (622292895793983 / 2 ^ 19)) + (- (4859616384553999 / 2 ^ 17))) * 2 ^ (52 - 35)) = - 5015189608502495"
    by (rule round_half_even_near) simp
  have f21: "fl64 (MX0 + MX1) = CX1"
    unfolding CX1_def MX0_def MX1_def using fl64_up [OF _ _ _ r21] by simp
  have f22: "fl64 (CX1 + MX2) = CX2"
    unfolding CX1_def CX2_def MX2_def by (simp add: fl64_zero)
  have r23: "round_half_even (((- (8302207016940085 / 2 ^ 20))) * 2 ^ (52 - 32)) = - 8302207016940085"
    by (rule round_half_even_near) simp
  have f23: "fl64 (MY0) = MY0"
    unfolding MY0_def using fl64_up [OF _ _ _ r23] by simp
  have r24: "round_half_even (((- (8302207016940085 / 2 ^ 20)) + (- (4943938495336215 / 2 ^ 17))) * 2 ^ (52 - 35)) = - 5981714372453726"
    by (rule round_half_even_near) simp
  have f24: "fl64 (MY0 + MY1) = CY1"
    unfolding CY1_def MY0_def MY1_def using fl64_up [OF _ _ _ r24] by simp
  have f25: "fl64 (CY1 + MY2) = CY2"
    unfolding CY1_def CY2_def MY2_def by (simp add: fl64_zero)
  have r26: "round_half_even ((1 / 10 ^ 9) * 2 ^ (52 + 30)) = 4835703278458517"
    by (rule round_half_even_near) simp
  have f26: "fl64 (1 / 10 ^ 9) = T"
    unfolding T_def using fl64_down [OF _ _ r26] by simp
  have r27: "round_half_even ((3 * (1 / 2 ^ 29)) * 2 ^ (52 + 28)) = 6755399441055744"
    by (rule round_half_even_near) simp
  have f27: "fl64 (3 * A2) = D"
    unfolding A2_def D_def using fl64_down [OF _ _ r27] by simp
  have fyy: "fl64 (y + y) = SY"
    unfolding mult_2 [symmetric] by (rule f10)
  note ops = f1 f2 f3 f4 f5 f6 f7 f8 f9 f10 f11 f12 f13 f14 f15 f16 f17 f18 f19 f20 f21 f22 f23 f24 f25 f26 f27 fyy
  let ?pts = "[(x0, y), (x1, y), (x2, y)]"
  have pts: "collinear_clicks = ?pts"
    unfolding collinear_clicks_def x0_def x1_def x2_def y_def by (rule refl)
  have len: "length ?pts = 3" by simp
  have s0: "centroid_step fl64 ?pts (0, 0, 0) 0 = (C0, MX0, MY0)"
    by (simp add: centroid_step_def ops)
  have s1: "centroid_step fl64 ?pts (C0, MX0, MY0) (Suc 0) = (A1, CX1, CY1)"
    by (simp add: centroid_step_def ops)
  have s2: "centroid_step fl64 ?pts (A1, CX1, CY1) 2 = (A2, CX2, CY2)"
    by (simp add: centroid_step_def ops)
  have "centroid_loop fl64 ?pts =
          (if \<bar>A2\<bar> < T then None else Some (fl64 (CX2 / D), fl64 (CY2 / D)))"
    unfolding centroid_loop_def len upt_three foldl.simps s0 s1 s2 prod.case f26 f27
    by (rule refl)
  also have "\<dots> = Some (0, 0)"
    by (simp add: A2_def T_def CX2_def CY2_def fl64_zero)
  finally have code: "polygon_centroid collinear_clicks = Some (0, 0)"
    by (simp add: polygon_centroid_def pts)
  have "signed_area collinear_clicks = 0"
    by (simp add: signed_area_def cross_at_def collinear_clicks_def below_three)
  then have "centroid_formula collinear_clicks = None"
    by (simp add: centroid_formula_def)
  with code show ?thesis by simp
qed

subsection \<open>Ray against the boundary\<close>


lemma ray_step_eq:
  "ray_step ps origin (sin (radians ang), - cos (radians ang)) st i =
     (if accepted ps origin ang i \<and>
         (case fst st of None \<Rightarrow> True | Some nt \<Rightarrow> edge_t ps origin ang i < nt)
      then (Some (edge_t ps origin ang i), Some (point_at origin ang (edge_t ps origin ang i)))
      else st)"
proof -
  obtain ox oy where o: "origin = (ox, oy)" by (cases origin)
  obtain nearest_t nearest_pt where s: "st = (nearest_t, nearest_pt)" by (cases st)
  obtain ax ay where a: "ps ! i = (ax, ay)" by (cases "ps ! i")
  obtain bx "by" where b: "ps ! ((i + 1) mod length ps) = (bx, by)"
    by (cases "ps ! ((i + 1) mod length ps)")
  then have b': "ps ! (Suc i mod length ps) = (bx, by)" by simp
  let ?r = "radians ang"
  have d: "sin ?r * (by - ay) - - cos ?r * (bx - ax) = edge_denom ps ang i"
    by (simp add: edge_denom_def edge_vec_def ray_dir_def a b')
  have t: "((ax - ox) * (by - ay) - (ay - oy) * (bx - ax)) / edge_denom ps ang i
             = edge_t ps origin ang i"
    by (simp add: edge_t_def edge_vec_def a b' o)
  have u: "((ax - ox) * - cos ?r - (ay - oy) * sin ?r) / edge_denom ps ang i
             = edge_u ps origin ang i"
    by (simp add: edge_u_def ray_dir_def a b' o)
  have p: "(ox + edge_t ps origin ang i * sin ?r, oy + edge_t ps origin ang i * - cos ?r)
             = point_at origin ang (edge_t ps origin ang i)"
    by (simp add: point_at_def ray_dir_def o)
  have "ray_step ps origin (sin ?r, - cos ?r) st i =
      (if \<bar>edge_denom ps ang i\<bar> < 1 / 10 ^ 9 then st
       else if edge_t ps origin ang i \<ge> 0 \<and> - (1 / 10 ^ 9) \<le> edge_u ps origin ang i
                 \<and> edge_u ps origin ang i \<le> 1 + 1 / 10 ^ 9
            then if (case nearest_t of None \<Rightarrow> True | Some nt \<Rightarrow> edge_t ps origin ang i < nt)
                 then (Some (edge_t ps origin ang i),
                       Some (point_at origin ang (edge_t ps origin ang i)))
                 else st
            else st)"
    by (simp only: ray_step_def o s a b prod.case Let_def d t [unfolded o] u [unfolded o] p [unfolded o])
  then show ?thesis
    by (simp add: accepted_def s)
qed






lemmas edge_defs =
  accepted_def edge_t_def edge_u_def edge_denom_def edge_vec_def ray_dir_def radians_def


lemma two_denom: "edge_denom [a, b] ang (Suc 0) = - edge_denom [a, b] ang 0"
  by (simp add: edge_denom_def edge_vec_def algebra_simps)

lemma two_t: "edge_t [a, b] origin ang (Suc 0) = edge_t [a, b] origin ang 0"
proof -
  define D where "D = edge_denom [a, b] ang 0"
  define N0 where
    "N0 = (fst a - fst origin) * (snd b - snd a) - (snd a - snd origin) * (fst b - fst a)"
  define N1 where
    "N1 = (fst b - fst origin) * (snd a - snd b) - (snd b - snd origin) * (fst a - fst b)"
  have key: "N1 = - N0"
    unfolding N0_def N1_def by (simp add: algebra_simps)
  have "edge_t [a, b] origin ang (Suc 0) = N1 / (- D)"
    unfolding edge_t_def two_denom N1_def D_def by (simp add: edge_vec_def)
  moreover have "edge_t [a, b] origin ang 0 = N0 / D"
    unfolding edge_t_def N0_def D_def by (simp add: edge_vec_def)
  ultimately show ?thesis by (simp add: key)
qed

lemma two_u:
  assumes "edge_denom [a, b] ang 0 \<noteq> 0"
  shows "edge_u [a, b] origin ang (Suc 0) = 1 - edge_u [a, b] origin ang 0"
proof -
  define D where "D = edge_denom [a, b] ang 0"
  define N0 where
    "N0 = (fst a - fst origin) * snd (ray_dir ang) - (snd a - snd origin) * fst (ray_dir ang)"
  define N1 where
    "N1 = (fst b - fst origin) * snd (ray_dir ang) - (snd b - snd origin) * fst (ray_dir ang)"
  have key: "N1 = N0 - D"
    unfolding N0_def N1_def D_def by (simp add: edge_denom_def edge_vec_def algebra_simps)
  have nz: "D \<noteq> 0" using assms by (simp add: D_def)
  have e1: "edge_u [a, b] origin ang (Suc 0) = N1 / (- D)"
    unfolding edge_u_def two_denom N1_def D_def by simp
  have e0: "edge_u [a, b] origin ang 0 = N0 / D"
    unfolding edge_u_def N0_def D_def by simp
  show ?thesis
    unfolding e1 e0 key using nz by (simp add: field_simps)
qed

lemma two_accepted: "accepted [a, b] origin ang (Suc 0) \<longleftrightarrow> accepted [a, b] origin ang 0"
proof (cases "edge_denom [a, b] ang 0 = 0")
  case True
  then show ?thesis by (simp add: accepted_def two_denom)
next
  case False
  then show ?thesis
    by (auto simp: accepted_def two_denom two_t two_u)
qed

lemma upt_two: "[0..<2] = [0, Suc 0]"
  by (simp add: numeral_2_eq_2)

text \<open>
  Claim C9. With a boundary of zero or one point the ray routine returns no
  intersection, whatever the origin and the angle; with exactly two points its result
  is that of the intersection test against the single segment between them.
\<close>

theorem ray_boundary_intersection_small:
  "(length ps < 2 \<longrightarrow> ray_boundary_intersection ps origin ang = None) \<and>
   ray_boundary_intersection [a, b] origin ang = segment_hit a b origin ang"
  by (simp add: ray_boundary_intersection_def segment_hit_def Let_def upt_two ray_step_eq
        two_accepted two_t)

theorem ray_boundary_intersection_small_witness:
  "ray_boundary_intersection [] (50, 50) 0 = None \<and>
   ray_boundary_intersection [(0, 0)] (50, 50) 0 = None \<and>
   ray_boundary_intersection [(0, 0), (100, 0)] (50, 50) 0 = Some (50, 0)"
  using ray_boundary_intersection_small [of "[]" "(50, 50)" 0]
    ray_boundary_intersection_small [of "[(0, 0)]" "(50, 50)" 0]
    ray_boundary_intersection_small [of "[]" "(50, 50)" 0 "(0, 0)" "(100, 0)"]
  by (simp add: segment_hit_def edge_defs point_at_def)

subsection \<open>Balance lines, remarks and Prakriti groups\<close>


lemma sum_list_le_length_times:
  fixes xs :: "real list"
  assumes "\<And>x. x \<in> set xs \<Longrightarrow> x \<le> M"
  shows "sum_list xs \<le> real (length xs) * M"
  using assms by (induction xs) (auto simp: algebra_simps intro: add_mono)

lemma sum_list_ge_length_times:
  fixes xs :: "real list"
  assumes "\<And>x. x \<in> set xs \<Longrightarrow> m \<le> x"
  shows "real (length xs) * m \<le> sum_list xs"
  using assms by (induction xs) (auto simp: algebra_simps intro: add_mono)

lemma mean_le_Max:
  fixes xs :: "real list"
  assumes "xs \<noteq> []"
  shows "sum_list xs / real (length xs) \<le> Max (set xs)"
proof -
  have "sum_list xs \<le> real (length xs) * Max (set xs)"
    by (rule sum_list_le_length_times) simp
  moreover have "0 < real (length xs)" using assms by simp
  ultimately show ?thesis by (simp add: field_simps)
qed

lemma Min_le_mean:
  fixes xs :: "real list"
  assumes "xs \<noteq> []"
  shows "Min (set xs) \<le> sum_list xs / real (length xs)"
proof -
  have "real (length xs) * Min (set xs) \<le> sum_list xs"
    by (rule sum_list_ge_length_times) simp
  moreover have "0 < real (length xs)" using assms by simp
  ultimately show ?thesis by (simp add: field_simps)
qed

text \<open>
  Claim C5. For every non-empty area vector the balance lines are produced and satisfy
  \<open>LLOB \<le> LOB \<le> ULOB\<close>.
\<close>

theorem balance_lines_ordered:
  assumes "zone_data \<noteq> []"
  shows "\<exists>lob ulob llob remarks.
           classify_balance zone_data = Inr (lob, ulob, llob, remarks) \<and>
           llob \<le> lob \<and> lob \<le> ulob"
proof -
  define areas where "areas = map snd zone_data"
  define lob where "lob = sum_list areas / real (length areas)"
  define ulob where "ulob = (lob + Max (set areas)) / 2"
  define llob where "llob = (lob + Min (set areas)) / 2"
  define remarks where
    "remarks = map (\<lambda>(z, v). (z, if v > ulob then ''High''
                                  else if v < llob then ''Low''
                                  else ''Balanced'')) zone_data"
  from assms have ne: "areas \<noteq> []" by (simp add: areas_def)
  from assms have "map snd zone_data = [] \<longleftrightarrow> False" by simp
  then have eq: "classify_balance zone_data = Inr (lob, ulob, llob, remarks)"
    unfolding classify_balance_def Let_def remarks_def llob_def ulob_def lob_def areas_def
    by (simp only: if_False)
  have "lob \<le> Max (set areas)" "Min (set areas) \<le> lob"
    unfolding lob_def using ne by (rule mean_le_Max, rule Min_le_mean)
  then have "llob \<le> lob" "lob \<le> ulob"
    by (simp_all add: ulob_def llob_def)
  with eq show ?thesis by blast
qed

theorem balance_lines_ordered_witness:
  "[(''N'', 1), (''NNE'', 3 :: real)] \<noteq> [] \<and>
   classify_balance [(''N'', 1), (''NNE'', 3)]
     = Inr (2, 5 / 2, 3 / 2, [(''N'', ''Low''), (''NNE'', ''High'')])"
  using balance_lines_ordered [of "[(''N'', 1), (''NNE'', 3)]"]
  by (simp add: classify_balance_def)

lemma length_ZONE_NAMES: "length ZONE_NAMES = 16"
  by (simp add: ZONE_NAMES_def)

text \<open>
  Claim C4. On a vector of 16 areas the classification computes \<open>LOB\<close> as the mean,
  \<open>ULOB = (LOB + max) / 2\<close> and \<open>LLOB = (LOB + min) / 2\<close>, and labels a zone High exactly
  when its area is above \<open>ULOB\<close>, Low exactly when it is below \<open>LLOB\<close>, and Balanced
  otherwise; an area equal to \<open>ULOB\<close> or to \<open>LLOB\<close> is Balanced.
\<close>

theorem classify_balance_labels:
  assumes "length zone_areas = 16"
  shows "let LOB = sum_list zone_areas / 16;
             ULOB = (LOB + Max (set zone_areas)) / 2;
             LLOB = (LOB + Min (set zone_areas)) / 2
         in \<exists>remarks.
              classify_balance (zone_data_of zone_areas) = Inr (LOB, ULOB, LLOB, remarks) \<and>
              map fst remarks = ZONE_NAMES \<and>
              (\<forall>i<16.
                 (snd (remarks ! i) = ''High'' \<longleftrightarrow> zone_areas ! i > ULOB) \<and>
                 (snd (remarks ! i) = ''Low'' \<longleftrightarrow> zone_areas ! i < LLOB) \<and>
                 (snd (remarks ! i) = ''Balanced'' \<longleftrightarrow>
                    LLOB \<le> zone_areas ! i \<and> zone_areas ! i \<le> ULOB) \<and>
                 (zone_areas ! i = ULOB \<or> zone_areas ! i = LLOB \<longrightarrow>
                    snd (remarks ! i) = ''Balanced''))"
proof -
  define zone_data where "zone_data = zone_data_of zone_areas"
  define lob where "lob = sum_list zone_areas / 16"
  define ulob where "ulob = (lob + Max (set zone_areas)) / 2"
  define llob where "llob = (lob + Min (set zone_areas)) / 2"
  define label where
    "label = (\<lambda>v. if v > ulob then ''High'' else if v < llob then ''Low'' else ''Balanced'')"
  define remarks where "remarks = map (\<lambda>(z, v). (z, label v)) zone_data"
  have areas: "map snd zone_data = zone_areas"
    using assms by (simp add: zone_data_def zone_data_of_def length_ZONE_NAMES)
  have names: "map fst zone_data = ZONE_NAMES"
    using assms by (simp add: zone_data_def zone_data_of_def length_ZONE_NAMES)
  have ne: "zone_areas \<noteq> []" using assms by auto
  then have ne': "(zone_areas = []) = False" by simp
  have len16: "real (length zone_areas) = 16" using assms by simp
  have eq: "classify_balance zone_data = Inr (lob, ulob, llob, remarks)"
    unfolding classify_balance_def Let_def areas len16
      remarks_def label_def llob_def ulob_def lob_def
    by (simp only: ne' if_False)
  have "lob \<le> Max (set zone_areas)" "Min (set zone_areas) \<le> lob"
    using mean_le_Max [OF ne] Min_le_mean [OF ne] assms by (simp_all add: lob_def)
  then have ord: "llob \<le> ulob"
    by (simp add: ulob_def llob_def)
  have fst_remarks: "map fst remarks = ZONE_NAMES"
    unfolding remarks_def using names by (simp add: case_prod_unfold comp_def)
  have len_zd: "length zone_data = 16"
    using assms by (simp add: zone_data_def zone_data_of_def length_ZONE_NAMES)
  have nth: "snd (remarks ! i) = label (zone_areas ! i)" if "i < 16" for i
  proof -
    have "snd (zone_data ! i) = zone_areas ! i"
      using that len_zd areas by (metis nth_map)
    then show ?thesis
      using that len_zd by (simp add: remarks_def case_prod_unfold)
  qed
  have lab: "(label v = ''High'' \<longleftrightarrow> v > ulob) \<and> (label v = ''Low'' \<longleftrightarrow> v < llob) \<and>
             (label v = ''Balanced'' \<longleftrightarrow> llob \<le> v \<and> v \<le> ulob) \<and>
             (v = ulob \<or> v = llob \<longrightarrow> label v = ''Balanced'')" for v
    using ord by (auto simp: label_def)
  have "\<forall>i<16.
          (snd (remarks ! i) = ''High'' \<longleftrightarrow> zone_areas ! i > ulob) \<and>
          (snd (remarks ! i) = ''Low'' \<longleftrightarrow> zone_areas ! i < llob) \<and>
          (snd (remarks ! i) = ''Balanced'' \<longleftrightarrow> llob \<le> zone_areas ! i \<and> zone_areas ! i \<le> ulob) \<and>
          (zone_areas ! i = ulob \<or> zone_areas ! i = llob \<longrightarrow> snd (remarks ! i) = ''Balanced'')"
    using nth lab ord by simp
  with eq fst_remarks show ?thesis
    unfolding Let_def zone_data_def lob_def [symmetric] ulob_def [symmetric] llob_def [symmetric]
    by blast
qed

theorem classify_balance_labels_witness:
  "length [12, 8, 2, 0, 3, 3, 3, 3, 3, 3, 4, 4, 4, 4, 4, 4 :: real] = 16 \<and>
   classify_balance (zone_data_of [12, 8, 2, 0, 3, 3, 3, 3, 3, 3, 4, 4, 4, 4, 4, 4])
     = Inr (4, 8, 2,
         [(''N'', ''High''), (''NNE'', ''Balanced''), (''NE'', ''Balanced''), (''ENE'', ''Low''),
          (''E'', ''Balanced''), (''ESE'', ''Balanced''), (''SE'', ''Balanced''),
          (''SSE'', ''Balanced''), (''S'', ''Balanced''), (''SSW'', ''Balanced''),
          (''SW'', ''Balanced''), (''WSW'', ''Balanced''), (''W'', ''Balanced''),
          (''WNW'', ''Balanced''), (''NW'', ''Balanced''), (''NNW'', ''Balanced'')])"
  using classify_balance_labels [of "[12, 8, 2, 0, 3, 3, 3, 3, 3, 3, 4, 4, 4, 4, 4, 4]"]
  by (simp add: classify_balance_def zone_data_of_def ZONE_NAMES_def)

lemma strength_of_zones:
  "strength_of
     (zone_data_of [n, nne, ne, ene, e, ese, se, sse, s, ssw, sw, wsw, w, wnw, nw, nnw])
     prakriti_map =
   Inr [(''Fire'', e + (ese + (se + (sse + (s + (ssw + 0)))))),
        (''Water'', nnw + (n + (nne + (ne + (ene + 0))))),
        (''Air'', sw + (wsw + (w + (wnw + (nw + 0)))))]"
  by (simp add: zone_data_of_def ZONE_NAMES_def prakriti_map_def)

text \<open>
  Claim C6. The Prakriti aggregation sums the zone areas into the groups
  Fire = E, ESE, SE, SSE, S, SSW; Water = NNW, N, NNE, NE, ENE; Air = SW, WSW, W, WNW, NW.
  When the total of the three group areas is not positive it fails with
  \<open>ZeroPrakritiTotal\<close>, before any division; when the total is positive the percentage
  of each group is \<open>100 * groupArea / total\<close>.
\<close>

theorem aggregate_prakriti_groups:
  "let zone_data = zone_data_of [n, nne, ne, ene, e, ese, se, sse, s, ssw, sw, wsw, w, wnw, nw, nnw];
       fire = e + ese + se + sse + s + ssw;
       water = nnw + n + nne + ne + ene;
       air = sw + wsw + w + wnw + nw;
       total = fire + water + air
   in (total \<le> 0 \<longrightarrow> aggregate_prakriti zone_data = Inl ZeroPrakritiTotal) \<and>
      (total > 0 \<longrightarrow>
         (\<exists>r. aggregate_prakriti zone_data = Inr r \<and>
            prakriti_strength r = [(''Fire'', fire), (''Water'', water), (''Air'', air)] \<and>
            total_prakriti r = total \<and>
            prakriti_percentage r =
              [(''Fire'', 100 * fire / total), (''Water'', 100 * water / total),
               (''Air'', 100 * air / total)]))"
  unfolding Let_def aggregate_prakriti_def strength_of_zones
  by (simp add: algebra_simps)

theorem aggregate_prakriti_groups_witness:
  "aggregate_prakriti (zone_data_of [0, 0, 0, 0, 0, 0, 0, 0, 0, 0, 0, 0, 0, 0, 0, 0])
     = Inl ZeroPrakritiTotal \<and>
   aggregate_prakriti (zone_data_of [20, 0, 0, 0, 50, 0, 0, 0, 0, 0, 0, 0, 30, 0, 0, 0])
     = Inr \<lparr>prakriti_strength = [(''Fire'', 50), (''Water'', 20), (''Air'', 30)],
            total_prakriti = 100,
            prakriti_percentage = [(''Fire'', 50), (''Water'', 20), (''Air'', 30)],
            prakriti_sorted = [(''Fire'', 50), (''Air'', 30), (''Water'', 20)],
            final_prakriti = ''Fire-Air-Water''\<rparr>"
  using aggregate_prakriti_groups [of 0 0 0 0 0 0 0 0 0 0 0 0 0 0 0 0]
    aggregate_prakriti_groups [of 20 0 0 0 50 0 0 0 0 0 0 0 30 0 0 0]
  by (simp add: aggregate_prakriti_def strength_of_zones Let_def)

lemma replicate_sixteen:
  "replicate 16 x = [x, x, x, x, x, x, x, x, x, x, x, x, x, x, x, x]"
  by (simp add: eval_nat_numeral)

lemma aggregate_uniform:
  "aggregate_prakriti (zone_data_of (replicate 16 100))
     = Inr \<lparr>prakriti_strength = [(''Fire'', 600), (''Water'', 500), (''Air'', 500)],
            total_prakriti = 1600,
            prakriti_percentage = [(''Fire'', 75 / 2), (''Water'', 125 / 4), (''Air'', 125 / 4)],
            prakriti_sorted = [(''Fire'', 600), (''Water'', 500), (''Air'', 500)],
            final_prakriti = ''Fire-Water-Air''\<rparr>"
  by (simp add: replicate_sixteen aggregate_prakriti_def strength_of_zones Let_def)

text \<open>
  Claim C7, as the code has it. On the uniform vector of 16 areas equal to 100 the
  group areas are Fire = 600, Water = 500, Air = 500, the percentages sum to 100 within
  \<open>1e-6\<close>, the groups ranked by descending area are Fire, Water, Air, and the label
  joins the group names with a hyphen: it is \<open>Fire-Water-Air\<close>, which starts with Fire.
\<close>

theorem aggregate_prakriti_uniform:
  "\<exists>r. aggregate_prakriti (zone_data_of (replicate 16 100)) = Inr r \<and>
        prakriti_strength r = [(''Fire'', 600), (''Water'', 500), (''Air'', 500)] \<and>
        \<bar>sum_list (map snd (prakriti_percentage r)) - 100\<bar> \<le> 1 / 10 ^ 6 \<and>
        map fst (prakriti_sorted r) = [''Fire'', ''Water'', ''Air''] \<and>
        final_prakriti r = ''Fire-Water-Air'' \<and>
        take 4 (final_prakriti r) = ''Fire''"
  by (simp add: aggregate_uniform)

text \<open>
  The label is not made of the leading letters of the ranked groups: on the uniform
  vector the code yields \<open>Fire-Water-Air\<close>, where the leading letters joined by a hyphen
  would be \<open>F-W-A\<close>.
\<close>

theorem leading_letter_label_counterexample:
  "map_sum id final_prakriti (aggregate_prakriti (zone_data_of (replicate 16 100)))
     = Inr ''Fire-Water-Air'' \<and>
   map_sum id (leading_letter_label \<circ> prakriti_sorted)
       (aggregate_prakriti (zone_data_of (replicate 16 100)))
     = Inr ''F-W-A''"
  by (simp add: aggregate_uniform leading_letter_label_def)

subsection \<open>Selection of the area boundary\<close>


text \<open>
  Claim C10, as the code has it. Both the interactive calculation and the PDF export
  select the bar-chart boundary polygon exactly when it has at least three points and
  otherwise fall back, without a message, to the center boundary polygon. The
  interactive calculation then runs the masking routine on the selected polygon (given
  at least three points and a center). The export, given a center boundary of at least
  three points and a center, runs the same masking routine on the selected polygon when
  there is no cached vector of 16 zone areas, and otherwise takes the cached vector
  without masking.
\<close>

theorem zone_area_boundary_selection:
  "(3 \<le> length (barchart_boundary_points s) \<longrightarrow>
      select_barchart_points s = barchart_boundary_points s) \<and>
   (length (barchart_boundary_points s) < 3 \<longrightarrow>
      select_barchart_points s = boundary_points s) \<and>
   calculate_zone_areas_source s =
     (if length (select_barchart_points s) < 3 \<or> center_point s = None
      then Inl InsufficientGeometry
      else Inr (Masked (select_barchart_points s))) \<and>
   export_zone_areas_source s =
     (if length (boundary_points s) < 3 \<or> center_point s = None
      then Inl InsufficientGeometry
      else case zone_areas_cache s of
             None \<Rightarrow> Inr (Masked (select_barchart_points s))
           | Some cached \<Rightarrow>
               if length cached = 16 then Inr (Cached cached)
               else Inr (Masked (select_barchart_points s))) \<and>
   (\<forall>p. calculate_zone_areas_source s = Inr (Masked p) \<longrightarrow>
      map_sum id fst (calculate_zone_areas cv lm s) = compute_zone_areas_mask_based cv lm s p) \<and>
   (\<forall>p. export_zone_areas_source s = Inr (Masked p) \<longrightarrow>
      map_sum id fst (export_zone_areas cv lm s) = compute_zone_areas_mask_based cv lm s p) \<and>
   (\<forall>cached. export_zone_areas_source s = Inr (Cached cached) \<longrightarrow>
      map_sum id fst (export_zone_areas cv lm s) = Inr cached)"
  by (auto simp: select_barchart_points_def calculate_zone_areas_source_def
        export_zone_areas_source_def calculate_zone_areas_def export_zone_areas_def
        zone_areas_from_def Let_def split: option.splits sum.splits)

lemmas example_states =
  state_both_def state_center_only_def state_cached_def square_plot_def triangle_plot_def

theorem zone_area_boundary_selection_witness:
  "select_barchart_points state_both = triangle_plot \<and>
   calculate_zone_areas_source state_both = Inr (Masked triangle_plot) \<and>
   export_zone_areas_source state_both = Inr (Masked triangle_plot) \<and>
   select_barchart_points state_center_only = square_plot \<and>
   calculate_zone_areas_source state_center_only = Inr (Masked square_plot) \<and>
   export_zone_areas_source state_center_only = Inr (Masked square_plot) \<and>
   export_zone_areas_source state_cached = Inr (Cached (replicate 16 100)) \<and>
   (\<forall>(cv :: unit cv2) lm.
      map_sum id fst (calculate_zone_areas cv lm state_both)
        = compute_zone_areas_mask_based cv lm state_both triangle_plot) \<and>
   (\<forall>(cv :: unit cv2) lm.
      map_sum id fst (export_zone_areas cv lm state_center_only)
        = compute_zone_areas_mask_based cv lm state_center_only square_plot) \<and>
   (\<forall>(cv :: unit cv2) lm.
      map_sum id fst (export_zone_areas cv lm state_cached) = Inr (replicate 16 100))"
proof -
  note sel = zone_area_boundary_selection [THEN conjunct1]
  note fallback = zone_area_boundary_selection [THEN conjunct2, THEN conjunct1]
  note calc = zone_area_boundary_selection [THEN conjunct2, THEN conjunct2, THEN conjunct1]
  note export = zone_area_boundary_selection
    [THEN conjunct2, THEN conjunct2, THEN conjunct2, THEN conjunct1]
  note calc_masked = zone_area_boundary_selection
    [THEN conjunct2, THEN conjunct2, THEN conjunct2, THEN conjunct2, THEN conjunct1, rule_format]
  note export_masked = zone_area_boundary_selection
    [THEN conjunct2, THEN conjunct2, THEN conjunct2, THEN conjunct2, THEN conjunct2,
     THEN conjunct1, rule_format]
  note export_cached = zone_area_boundary_selection
    [THEN conjunct2, THEN conjunct2, THEN conjunct2, THEN conjunct2, THEN conjunct2,
     THEN conjunct2, rule_format]
  have a: "select_barchart_points state_both = triangle_plot"
    using sel [of state_both] by (simp add: example_states)
  have b: "select_barchart_points state_center_only = square_plot"
    using fallback [of state_center_only] by (simp add: example_states)
  have c: "select_barchart_points state_cached = triangle_plot"
    using sel [of state_cached] by (simp add: example_states)
  have a1: "calculate_zone_areas_source state_both = Inr (Masked triangle_plot)"
    unfolding calc [of state_both] a by (simp add: example_states)
  have a2: "export_zone_areas_source state_both = Inr (Masked triangle_plot)"
    unfolding export [of state_both] a by (simp add: example_states)
  have b1: "calculate_zone_areas_source state_center_only = Inr (Masked square_plot)"
    unfolding calc [of state_center_only] b by (simp add: example_states)
  have b2: "export_zone_areas_source state_center_only = Inr (Masked square_plot)"
    unfolding export [of state_center_only] b by (simp add: example_states)
  have c2: "export_zone_areas_source state_cached = Inr (Cached (replicate 16 100))"
    unfolding export [of state_cached] c by (simp add: example_states)
  show ?thesis
    by (simp add: a b a1 a2 b1 b2 c2
          calc_masked [OF a1] export_masked [OF b2] export_cached [OF c2])
qed

text \<open>
  In the export the masking routine does not always run on the selected polygon: with
  a cached vector of 16 areas the export takes the cache.
\<close>

theorem export_cache_counterexample:
  "select_barchart_points state_cached = triangle_plot \<and>
   export_zone_areas_source state_cached = Inr (Cached (replicate 16 100)) \<and>
   export_zone_areas_source state_cached \<noteq> Inr (Masked (select_barchart_points state_cached))"
  by (simp add: select_barchart_points_def export_zone_areas_source_def example_states)

end
